theory Spec2Isabelle
  imports Complex_Main
begin

section \<open>Data model\<close>

text \<open>
  The application keeps three collections in React state (\<open>materials\<close>, \<open>recipes\<close>,
  \<open>salesLog\<close>) and one next-identifier counter per collection. The handlers of
  \<open>App\<close>, \<open>RecipeForm\<close> and \<open>Settings\<close> are modelled as functions from the
  state to an error or the new state; an early \<open>return\<close> after \<open>alert\<close> is the
  error branch.

  The repository holds two versions of \<open>App.js\<close>. Their handlers are the same
  but for the stamp of a sale (a timestamp in the version that draws an hourly chart, a
  date key in \<open>src/App.js\<close>); their statistics differ and are modelled separately
  (\<open>statsView\<close> for the version with the hourly chart, \<open>statsViewApp\<close> for
  \<open>src/App.js\<close>).

  Numbers. JavaScript numbers stored in the collections are modelled as exact rationals;
  rounding of binary floating point is not modelled. A number that comes from a form
  field (\<open>parseInt\<close>, \<open>parseFloat\<close>) may be \<open>NaN\<close>, which is the extra
  constructor of \<open>number\<close>. Identifiers are integers.

  Time. An instant is the number of milliseconds of local wall-clock time since a fixed
  local midnight, every day having 24 hours; a calendar date (the value of a date input)
  is a day number, and \<open>None\<close> is the empty input.
\<close>

datatype number = NaN | Num rat

record material =
  m_id :: int
  m_name :: string
  stock :: rat
  deadline :: rat
  consumed :: rat

record recipe_item =
  materialId :: int
  i_qty :: rat

record recipe =
  r_id :: int
  r_name :: string
  price :: rat
  items :: "recipe_item list"
  soldCount :: rat

record sale =
  s_id :: int
  recipeId :: int
  s_qty :: rat
  pricePerUnit :: rat
  timestamp :: int

record state =
  materials :: "material list"
  recipes :: "recipe list"
  salesLog :: "sale list"
  nextMaterialId :: int
  nextRecipeId :: int
  nextSaleId :: int

text \<open>
  The handlers report failure with \<open>alert\<close> and return; the kinds of failure are
  named after the specification. \<open>InsufficientStock\<close> carries what the alert text
  shows: the material's name, the required and the current amount. \<open>Cancelled\<close> is a
  declined \<open>window.confirm\<close>.
\<close>

datatype error =
    InvalidInput
  | InvalidQuantity
  | InsufficientStock string rat rat
  | MaterialInUse
  | EmptyRecipe
  | MalformedBackup
  | Cancelled

text \<open>The store after a handler has run: an early return leaves the React state as it was.\<close>

definition after :: "state \<Rightarrow> error + state \<Rightarrow> state" where
  "after st res = (case res of Inl e \<Rightarrow> st | Inr st' \<Rightarrow> st')"

section \<open>Material handlers\<close>

text \<open>\<open>parseInt(...) || 5\<close>: \<open>NaN\<close> and \<open>0\<close> are falsy.\<close>

definition deadlineOr5 :: "number \<Rightarrow> rat" where
  "deadlineOr5 d = (case d of NaN \<Rightarrow> 5 | Num x \<Rightarrow> if x = 0 then 5 else x)"

text \<open>
  \<open>handleAddMaterial\<close>; \<open>name\<close> is the trimmed field, \<open>stock0\<close> and \<open>deadline0\<close>
  are the results of \<open>parseInt\<close>.
\<close>

definition handleAddMaterial :: "state \<Rightarrow> string \<Rightarrow> number \<Rightarrow> number \<Rightarrow> error + state" where
  "handleAddMaterial st name stock0 deadline0 =
     (case stock0 of
        NaN \<Rightarrow> Inl InvalidInput
      | Num s \<Rightarrow>
          if name = [] \<or> s < 0 then Inl InvalidInput
          else Inr (st\<lparr>materials := materials st @
                        [\<lparr>m_id = nextMaterialId st, m_name = name, stock = s,
                          deadline = deadlineOr5 deadline0, consumed = 0\<rparr>],
                      nextMaterialId := nextMaterialId st + 1\<rparr>))"

definition handleStockIn :: "state \<Rightarrow> int \<Rightarrow> number \<Rightarrow> error + state" where
  "handleStockIn st materialId' qty =
     (case qty of
        NaN \<Rightarrow> Inl InvalidQuantity
      | Num q \<Rightarrow>
          if q \<le> 0 then Inl InvalidQuantity
          else Inr (st\<lparr>materials :=
                 map (\<lambda>m. if m_id m = materialId' then m\<lparr>stock := stock m + q\<rparr> else m)
                   (materials st)\<rparr>))"

text \<open>\<open>recipes.some(recipe => recipe.items.some(item => item.materialId === materialId))\<close>\<close>

definition isMaterialInUse :: "recipe list \<Rightarrow> int \<Rightarrow> bool" where
  "isMaterialInUse rs materialId' =
     list_ex (\<lambda>r. list_ex (\<lambda>i. materialId i = materialId') (items r)) rs"

text \<open>\<open>handleDeleteMaterial\<close>; \<open>confirmed\<close> is the answer of \<open>window.confirm\<close>.\<close>

definition handleDeleteMaterial :: "state \<Rightarrow> bool \<Rightarrow> int \<Rightarrow> error + state" where
  "handleDeleteMaterial st confirmed materialId' =
     (if isMaterialInUse (recipes st) materialId' then Inl MaterialInUse
      else if confirmed
        then Inr (st\<lparr>materials := filter (\<lambda>m. m_id m \<noteq> materialId') (materials st)\<rparr>)
        else Inl Cancelled)"

section \<open>Recipe handlers\<close>

text \<open>
  The validation loop of \<open>handleSellRecipe\<close>: the first item whose material is missing
  or short of stock ends the handler. In the alert, a missing or empty name is shown as a
  placeholder and a missing stock as 0.
\<close>

definition unknownName :: string where
  "unknownName = ''unknown''"

fun checkItems :: "material list \<Rightarrow> rat \<Rightarrow> recipe_item list \<Rightarrow> error option" where
  "checkItems ms q [] = None"
| "checkItems ms q (i # rest) =
     (case find (\<lambda>m. m_id m = materialId i) ms of
        None \<Rightarrow> Some (InsufficientStock unknownName (i_qty i * q) 0)
      | Some m \<Rightarrow>
          if stock m < i_qty i * q
          then Some (InsufficientStock (if m_name m = [] then unknownName else m_name m)
                       (i_qty i * q) (stock m))
          else checkItems ms q rest)"

text \<open>The commit of \<open>handleSellRecipe\<close> on one material: \<open>recipe.items.find\<close> takes the
  first item of the recipe that names the material.\<close>

definition consume :: "recipe_item list \<Rightarrow> rat \<Rightarrow> material \<Rightarrow> material" where
  "consume its q m =
     (case find (\<lambda>i. materialId i = m_id m) its of
        Some item \<Rightarrow> m\<lparr>stock := stock m - i_qty item * q, consumed := consumed m + i_qty item * q\<rparr>
      | None \<Rightarrow> m)"

text \<open>\<open>handleSellRecipe\<close>; \<open>now\<close> is the instant the sale is stamped with.\<close>

definition handleSellRecipe :: "state \<Rightarrow> int \<Rightarrow> recipe \<Rightarrow> number \<Rightarrow> error + state" where
  "handleSellRecipe st now recipe qty =
     (case qty of
        NaN \<Rightarrow> Inl InvalidQuantity
      | Num q \<Rightarrow>
          if q \<le> 0 then Inl InvalidQuantity
          else (case checkItems (materials st) q (items recipe) of
                  Some e \<Rightarrow> Inl e
                | None \<Rightarrow>
                    Inr (st\<lparr>materials := map (consume (items recipe) q) (materials st),
                            recipes := map (\<lambda>r. if r_id r = r_id recipe
                                                 then r\<lparr>soldCount := soldCount r + q\<rparr> else r)
                                         (recipes st),
                            salesLog := salesLog st @
                              [\<lparr>s_id = nextSaleId st, recipeId = r_id recipe, s_qty = q,
                                pricePerUnit = price recipe, timestamp = now\<rparr>],
                            nextSaleId := nextSaleId st + 1\<rparr>)))"

text \<open>\<open>handleDeleteRecipe\<close>; \<open>confirmed\<close> is the answer of \<open>window.confirm\<close>.\<close>

definition handleDeleteRecipe :: "state \<Rightarrow> bool \<Rightarrow> int \<Rightarrow> error + state" where
  "handleDeleteRecipe st confirmed recipeId' =
     (if confirmed
      then Inr (st\<lparr>recipes := filter (\<lambda>r. r_id r \<noteq> recipeId') (recipes st),
                  salesLog := filter (\<lambda>s. recipeId s \<noteq> recipeId') (salesLog st)\<rparr>)
      else Inl Cancelled)"

text \<open>
  A row of \<open>RecipeForm\<close>. The material is chosen from a select whose values are material
  identifiers, \<open>None\<close> being the empty choice (\<open>parseInt\<close> gives \<open>NaN\<close>); the amount
  is the result of \<open>parseFloat\<close>.
\<close>

record form_row =
  f_materialId :: "int option"
  f_qty :: number

text \<open>\<open>!isNaN(item.materialId) && item.materialId && !isNaN(item.qty) && item.qty > 0\<close>\<close>

definition keepRow :: "form_row \<Rightarrow> bool" where
  "keepRow row =
     (case f_materialId row of
        None \<Rightarrow> False
      | Some mid \<Rightarrow> mid \<noteq> 0 \<and> (case f_qty row of NaN \<Rightarrow> False | Num q \<Rightarrow> q > 0))"

text \<open>The item a kept row stands for (the other branches are never reached after
  \<open>keepRow\<close>).\<close>

definition toItem :: "form_row \<Rightarrow> recipe_item" where
  "toItem row = \<lparr>materialId = (case f_materialId row of Some mid \<Rightarrow> mid | None \<Rightarrow> 0),
                  i_qty = (case f_qty row of Num q \<Rightarrow> q | NaN \<Rightarrow> 0)\<rparr>"

text \<open>\<open>RecipeForm.handleSubmit\<close>; \<open>name\<close> is the trimmed field, \<open>price0\<close> the result
  of \<open>parseFloat\<close>, with \<open>|| 0\<close> applied here.\<close>

definition handleSubmit :: "state \<Rightarrow> string \<Rightarrow> number \<Rightarrow> form_row list \<Rightarrow> error + state" where
  "handleSubmit st name price0 recipeItems =
     (if name = [] then Inl InvalidInput
      else let its = map toItem (filter keepRow recipeItems) in
        if its = [] then Inl EmptyRecipe
        else Inr (st\<lparr>recipes := recipes st @
                      [\<lparr>r_id = nextRecipeId st, r_name = name,
                        price = (case price0 of NaN \<Rightarrow> 0 | Num p \<Rightarrow> p),
                        items = its, soldCount = 0\<rparr>],
                    nextRecipeId := nextRecipeId st + 1\<rparr>))"

section \<open>Bulk load and restore\<close>

text \<open>\<open>Math.max(...ids, 0)\<close>\<close>

definition mathMax0 :: "int list \<Rightarrow> int" where
  "mathMax0 ids = foldr max ids 0"



text \<open>
  The state of \<open>src/App.js\<close> before anything is loaded, and its initial load from
  storage (the first \<open>useEffect\<close>): a counter is set only when the loaded collection
  is not empty.
\<close>

definition initialState :: state where
  "initialState = \<lparr>materials = [], recipes = [], salesLog = [],
                    nextMaterialId = 1, nextRecipeId = 1, nextSaleId = 1\<rparr>"


text \<open>
  The initial load of the version with the hourly chart: for an empty loaded collection
  the counter is computed from the collection the state starts with.
\<close>

definition initialLoadHourly :: "state \<Rightarrow> material list \<Rightarrow> recipe list \<Rightarrow> sale list \<Rightarrow> state" where
  "initialLoadHourly st initialMaterials initialRecipes initialSales =
     st\<lparr>materials := initialMaterials,
        recipes := initialRecipes,
        salesLog := initialSales,
        nextMaterialId := (if length initialMaterials > 0
                           then mathMax0 (map m_id initialMaterials) + 1
                           else mathMax0 (map m_id (materials st)) + 1),
        nextRecipeId := (if length initialRecipes > 0
                         then mathMax0 (map r_id initialRecipes) + 1
                         else mathMax0 (map r_id (recipes st)) + 1),
        nextSaleId := (if length initialSales > 0
                       then mathMax0 (map s_id initialSales) + 1
                       else mathMax0 (map s_id (salesLog st)) + 1)\<rparr>"

section \<open>Sales statistics\<close>

definition msPerDay :: int where
  "msPerDay = 86400000"

text \<open>\<open>parseDateString\<close>: local midnight of a calendar date.\<close>

definition parseDateString :: "int \<Rightarrow> int" where
  "parseDateString d = d * msPerDay"

text \<open>\<open>setHours(0, 0, 0, 0)\<close> and \<open>setHours(23, 59, 59, 999)\<close>\<close>

definition setHoursStart :: "int \<Rightarrow> int" where
  "setHoursStart t = (t div msPerDay) * msPerDay"

definition setHoursEnd :: "int \<Rightarrow> int" where
  "setHoursEnd t = (t div msPerDay) * msPerDay + (msPerDay - 1)"

definition getHours :: "int \<Rightarrow> nat" where
  "getHours t = nat ((t div 3600000) mod 24)"

datatype filterType = Today | All | Custom

text \<open>A JavaScript \<open>Map\<close>: keys in insertion order; \<open>set\<close> on a present key keeps
  its place.\<close>

fun mapSet :: "'k \<Rightarrow> 'v \<Rightarrow> ('k \<times> 'v) list \<Rightarrow> ('k \<times> 'v) list" where
  "mapSet k v [] = [(k, v)]"
| "mapSet k v ((k', v') # kvs) = (if k' = k then (k, v) # kvs else (k', v') # mapSet k v kvs)"

definition deletedName :: string where
  "deletedName = ''(deleted recipe)''"

record recipeEntry =
  e_id :: int
  e_name :: string
  e_qty :: rat
  e_sales :: rat

text \<open>One line of the hourly chart: 24 buckets, \<open>None\<close> being \<open>null\<close>. The colour and
  the other chart options are not modelled.\<close>

record hourlyEntry =
  h_name :: string
  h_data :: "rat option list"

record acc =
  totalQty :: rat
  totalSales :: rat
  perRecipe :: "(int \<times> recipeEntry) list"
  hourlySales :: "(int \<times> hourlyEntry) list"

definition recipeName :: "recipe list \<Rightarrow> int \<Rightarrow> string" where
  "recipeName rs rid = (case find (\<lambda>r. r_id r = rid) rs of Some r \<Rightarrow> r_name r | None \<Rightarrow> deletedName)"

text \<open>The body of \<open>log.forEach\<close> in the version with the hourly chart.\<close>

definition addSale :: "recipe list \<Rightarrow> acc \<Rightarrow> sale \<Rightarrow> acc" where
  "addSale rs a sale =
     (let saleAmount = s_qty sale * pricePerUnit sale;
          name = recipeName rs (recipeId sale);
          entry0 = (case map_of (perRecipe a) (recipeId sale) of
                      Some e \<Rightarrow> e
                    | None \<Rightarrow> \<lparr>e_id = recipeId sale, e_name = name, e_qty = 0, e_sales = 0\<rparr>);
          entry = entry0\<lparr>e_qty := e_qty entry0 + s_qty sale, e_sales := e_sales entry0 + saleAmount\<rparr>;
          hour = getHours (timestamp sale);
          hourly0 = (case map_of (hourlySales a) (recipeId sale) of
                       Some h \<Rightarrow> h
                     | None \<Rightarrow> \<lparr>h_name = name, h_data = replicate 24 None\<rparr>);
          hourly = hourly0\<lparr>h_data := (h_data hourly0)
                     [hour := Some ((case h_data hourly0 ! hour of None \<Rightarrow> 0 | Some x \<Rightarrow> x)
                                     + s_qty sale)]\<rparr>
      in \<lparr>totalQty = totalQty a + s_qty sale,
          totalSales = totalSales a + saleAmount,
          perRecipe = mapSet (recipeId sale) entry (perRecipe a),
          hourlySales = mapSet (recipeId sale) hourly (hourlySales a)\<rparr>)"

record stats =
  summary :: "rat \<times> rat"
  perRecipeStats :: "recipeEntry list"
  hourlyDatasets :: "hourlyEntry list"

text \<open>The filter of the version with the hourly chart: a \<open>custom\<close> filter with an empty date, or with
  the start after the end, assigns nothing to \<open>log\<close>, which was initialised with the
  whole sales log.\<close>

definition filterLog :: "filterType \<Rightarrow> int option \<Rightarrow> int option \<Rightarrow> int \<Rightarrow> sale list \<Rightarrow> sale list" where
  "filterLog ft startDate endDate now sales =
     (case ft of
        Today \<Rightarrow> filter (\<lambda>s. setHoursStart now \<le> timestamp s \<and> timestamp s \<le> setHoursEnd now) sales
      | All \<Rightarrow> sales
      | Custom \<Rightarrow>
          (case (startDate, endDate) of
             (Some sd, Some ed) \<Rightarrow>
               (let start = setHoursStart (parseDateString sd);
                    end' = setHoursEnd (parseDateString ed)
                in if start \<le> end'
                   then filter (\<lambda>s. start \<le> timestamp s \<and> timestamp s \<le> end') sales
                   else sales)
           | _ \<Rightarrow> sales))"

text \<open>The \<open>useMemo\<close> of \<open>StatsView\<close> in the version with the hourly chart.\<close>

definition statsView ::
  "filterType \<Rightarrow> int option \<Rightarrow> int option \<Rightarrow> int \<Rightarrow> sale list \<Rightarrow> recipe list \<Rightarrow> stats" where
  "statsView ft startDate endDate now sales rs =
     (let a = foldl (addSale rs) \<lparr>totalQty = 0, totalSales = 0, perRecipe = [], hourlySales = []\<rparr>
                (filterLog ft startDate endDate now sales)
      in \<lparr>summary = (totalQty a, totalSales a),
          perRecipeStats = map snd (perRecipe a),
          hourlyDatasets = map snd (hourlySales a)\<rparr>)"

text \<open>
  The \<open>useMemo\<close> of \<open>StatsView\<close> in \<open>src/App.js\<close>. There a sale carries a \<open>date\<close>
  key instead of a timestamp; the key is modelled by the instant \<open>parseDateString\<close>
  gives for it, held in the field \<open>timestamp\<close>. The result has a summary and the
  per-recipe items, without identifier and without hourly data.
\<close>

record statItem =
  it_name :: string
  it_qty :: rat
  it_sales :: rat

definition addSaleApp ::
  "recipe list \<Rightarrow> (rat \<times> rat) \<times> (int \<times> statItem) list \<Rightarrow> sale
     \<Rightarrow> (rat \<times> rat) \<times> (int \<times> statItem) list" where
  "addSaleApp rs a sale =
     (let saleAmount = s_qty sale * pricePerUnit sale;
          name = recipeName rs (recipeId sale);
          entry0 = (case map_of (snd a) (recipeId sale) of
                      Some e \<Rightarrow> e
                    | None \<Rightarrow> \<lparr>it_name = name, it_qty = 0, it_sales = 0\<rparr>);
          entry = entry0\<lparr>it_qty := it_qty entry0 + s_qty sale, it_sales := it_sales entry0 + saleAmount\<rparr>
      in ((fst (fst a) + s_qty sale, snd (fst a) + saleAmount),
          mapSet (recipeId sale) entry (snd a)))"

definition statsViewApp ::
  "filterType \<Rightarrow> int option \<Rightarrow> int option \<Rightarrow> int \<Rightarrow> sale list \<Rightarrow> recipe list
     \<Rightarrow> (rat \<times> rat) \<times> statItem list" where
  "statsViewApp ft startDate endDate now sales rs =
     (let run = (\<lambda>filteredLog.
                   let a = foldl (addSaleApp rs) ((0, 0), []) filteredLog
                   in (fst a, map snd (snd a)))
      in case ft of
           Today \<Rightarrow> run (filter (\<lambda>s. timestamp s = setHoursStart now) sales)
         | All \<Rightarrow> run sales
         | Custom \<Rightarrow>
             (case (startDate, endDate) of
                (Some sd, Some ed) \<Rightarrow>
                  (let start = parseDateString sd;
                       end' = setHoursEnd (parseDateString ed)
                   in if start > end' then ((0, 0), [])
                      else run (filter (\<lambda>s. start \<le> timestamp s \<and> timestamp s \<le> end') sales))
              | _ \<Rightarrow> ((0, 0), [])))"

section \<open>Sequences of operations\<close>

text \<open>
  One operation of the operator, with the values its handler receives. \<open>RecordSale\<close>
  carries the instant of the sale, the recipe object of the table row whose button was
  pressed, and the amount.
\<close>

datatype op =
    AddMaterial string number number
  | StockIn int number
  | DeleteMaterial bool int
  | AddRecipe string number "form_row list"
  | DeleteRecipe bool int
  | RecordSale int recipe number

text \<open>\<open>RecipesTable\<close> renders one row per element of \<open>recipes\<close> and passes that
  element to \<open>onSell\<close>: a recipe that is not in the store has no button.\<close>

fun exec :: "state \<Rightarrow> op \<Rightarrow> state" where
  "exec st (AddMaterial name stock0 deadline0) = after st (handleAddMaterial st name stock0 deadline0)"
| "exec st (StockIn mid qty) = after st (handleStockIn st mid qty)"
| "exec st (DeleteMaterial confirmed mid) = after st (handleDeleteMaterial st confirmed mid)"
| "exec st (AddRecipe name price0 rows) = after st (handleSubmit st name price0 rows)"
| "exec st (DeleteRecipe confirmed rid) = after st (handleDeleteRecipe st confirmed rid)"
| "exec st (RecordSale now recipe qty) =
     (if recipe \<in> set (recipes st) then after st (handleSellRecipe st now recipe qty) else st)"

text \<open>
  The invariants of the data model that the handlers rely on and keep: stock is not
  negative, identifiers are unique within a collection and below the collection's
  counter, and every amount of a recipe item is positive.
\<close>

definition wf :: "state \<Rightarrow> bool" where
  "wf st \<longleftrightarrow>
     (\<forall>m\<in>set (materials st). 0 \<le> stock m \<and> m_id m < nextMaterialId st) \<and>
     distinct (map m_id (materials st)) \<and>
     (\<forall>r\<in>set (recipes st). r_id r < nextRecipeId st \<and> (\<forall>i\<in>set (items r). 0 < i_qty i)) \<and>
     distinct (map r_id (recipes st))"

text \<open>
  An auxiliary relation for the proofs about runs: from \<open>st\<close> to \<open>st'\<close> the counters
  have not gone down, and every material (recipe) of \<open>st'\<close> is either new, with an
  identifier not below the old counter, or continues one of \<open>st\<close> with the same
  identifier and at least its consumed (sold count).
\<close>

definition grows :: "state \<Rightarrow> state \<Rightarrow> bool" where
  "grows st st' \<longleftrightarrow>
     nextMaterialId st \<le> nextMaterialId st' \<and> nextRecipeId st \<le> nextRecipeId st' \<and>
     (\<forall>m'\<in>set (materials st'). nextMaterialId st \<le> m_id m' \<or>
        (\<exists>m\<in>set (materials st). m_id m = m_id m' \<and> consumed m \<le> consumed m')) \<and>
     (\<forall>r'\<in>set (recipes st'). nextRecipeId st \<le> r_id r' \<or>
        (\<exists>r\<in>set (recipes st). r_id r = r_id r' \<and> soldCount r \<le> soldCount r'))"

section \<open>Example data\<close>

text \<open>The state the version with the hourly chart starts with (names transliterated);
  \<open>today\<close> is the local midnight of the current day.\<close>

definition demoMaterials :: "material list" where
  "demoMaterials =
     [\<lparr>m_id = 1, m_name = ''tamanegi'', stock = 50, deadline = 10, consumed = 10\<rparr>,
      \<lparr>m_id = 2, m_name = ''butaniku'', stock = 30, deadline = 5, consumed = 5\<rparr>,
      \<lparr>m_id = 3, m_name = ''kyabetsu'', stock = 40, deadline = 8, consumed = 8\<rparr>,
      \<lparr>m_id = 4, m_name = ''men'', stock = 100, deadline = 20, consumed = 20\<rparr>]"

definition butatama :: recipe where
  "butatama = \<lparr>r_id = 1, r_name = ''butatama'', price = 600,
                items = [\<lparr>materialId = 1, i_qty = 1\<rparr>, \<lparr>materialId = 2, i_qty = 1 / 2\<rparr>,
                         \<lparr>materialId = 3, i_qty = 1\<rparr>],
                soldCount = 3\<rparr>"

definition yakisoba :: recipe where
  "yakisoba = \<lparr>r_id = 2, r_name = ''yakisoba'', price = 750,
                items = [\<lparr>materialId = 4, i_qty = 1\<rparr>, \<lparr>materialId = 3, i_qty = 4 / 5\<rparr>,
                         \<lparr>materialId = 2, i_qty = 7 / 10\<rparr>, \<lparr>materialId = 1, i_qty = 1 / 2\<rparr>],
                soldCount = 5\<rparr>"

definition demoSale :: "int \<Rightarrow> int \<Rightarrow> recipe \<Rightarrow> rat \<Rightarrow> int \<Rightarrow> int \<Rightarrow> sale" where
  "demoSale today i r q h mi =
     \<lparr>s_id = i, recipeId = r_id r, s_qty = q, pricePerUnit = price r,
      timestamp = today + h * 3600000 + mi * 60000\<rparr>"

definition demoSales :: "int \<Rightarrow> sale list" where
  "demoSales today =
     [demoSale today 1 butatama 1 8 0, demoSale today 2 yakisoba 1 8 30,
      demoSale today 3 butatama 2 9 0, demoSale today 4 yakisoba 1 9 15,
      demoSale today 5 butatama 1 10 0, demoSale today 6 yakisoba 2 10 45,
      demoSale today 7 butatama 1 11 30, demoSale today 8 yakisoba 1 12 0,
      demoSale today 9 butatama 3 13 0, demoSale today 10 yakisoba 2 13 30,
      demoSale today 11 butatama 1 14 0, demoSale today 12 yakisoba 1 14 15]"

definition demoState :: "int \<Rightarrow> state" where
  "demoState today =
     \<lparr>materials = demoMaterials, recipes = [butatama, yakisoba], salesLog = demoSales today,
      nextMaterialId = 5, nextRecipeId = 3, nextSaleId = 13\<rparr>"

text \<open>The two sales of the specification's example, both in hour 8.\<close>

definition exampleSales :: "sale list" where
  "exampleSales =
     [\<lparr>s_id = 1, recipeId = 1, s_qty = 2, pricePerUnit = 600, timestamp = 8 * 3600000\<rparr>,
      \<lparr>s_id = 2, recipeId = 2, s_qty = 1, pricePerUnit = 750, timestamp = 8 * 3600000 + 1800000\<rparr>]"

text \<open>A material with a given identifier and stock, and a recipe naming one material twice.\<close>

definition mat :: "int \<Rightarrow> rat \<Rightarrow> material" where
  "mat i s = \<lparr>m_id = i, m_name = ''m'', stock = s, deadline = 5, consumed = 0\<rparr>"

definition twice :: recipe where
  "twice = \<lparr>r_id = 1, r_name = ''twice'', price = 100,
             items = [\<lparr>materialId = 1, i_qty = 3\<rparr>, \<lparr>materialId = 1, i_qty = 4\<rparr>],
             soldCount = 0\<rparr>"

definition twiceState :: state where
  "twiceState = \<lparr>materials = [mat 1 5, mat 2 9], recipes = [twice], salesLog = [],
                  nextMaterialId = 3, nextRecipeId = 2, nextSaleId = 1\<rparr>"

text \<open>A recipe whose second item asks for more than the demonstration state holds.\<close>

definition greedy :: recipe where
  "greedy = \<lparr>r_id = 3, r_name = ''greedy'', price = 100,
             items = [\<lparr>materialId = 1, i_qty = 2\<rparr>, \<lparr>materialId = 2, i_qty = 1000\<rparr>],
             soldCount = 0\<rparr>"

section \<open>Statistics on the example\<close>

lemma getHours_example: "getHours 28800000 = 8" "getHours 30600000 = 8"
  by (simp_all add: getHours_def)

lemma replicate_24: "replicate 24 x = [x,x,x,x,x,x,x,x,x,x,x,x,x,x,x,x,x,x,x,x,x,x,x,x]"
  by (simp add: numeral_eq_Suc)

lemma foldl_addSale_example:
  "foldl (addSale rs) \<lparr>totalQty = 0, totalSales = 0, perRecipe = [], hourlySales = []\<rparr> exampleSales =
   \<lparr>totalQty = 3, totalSales = 1950,
    perRecipe = [(1, \<lparr>e_id = 1, e_name = recipeName rs 1, e_qty = 2, e_sales = 1200\<rparr>),
                 (2, \<lparr>e_id = 2, e_name = recipeName rs 2, e_qty = 1, e_sales = 750\<rparr>)],
    hourlySales = [(1, \<lparr>h_name = recipeName rs 1, h_data = replicate 8 None @ [Some 2] @ replicate 15 None\<rparr>),
                   (2, \<lparr>h_name = recipeName rs 2, h_data = replicate 8 None @ [Some 1] @ replicate 15 None\<rparr>)]\<rparr>"
  by (simp add: exampleSales_def addSale_def Let_def getHours_example replicate_24 numeral_eq_Suc)

text \<open>
  C4. With the filter \<open>all\<close>, the statistics of the two example sales (2 units at 600
  of recipe 1 and 1 unit at 750 of recipe 2, both in hour 8) have the summary
  \<open>totalQty = 3\<close>, \<open>totalSales = 1950\<close>, exactly two per-recipe entries, recipe 1
  before recipe 2 as they first occur, and for each recipe an hourly series of 24
  buckets whose bucket 8 holds 2 and 1 and whose other buckets hold the no-data marker
  \<open>null\<close> (\<open>None\<close>), not zero. This holds whatever the recipes, the clock and the
  date fields are.
\<close>

theorem statsView_all_example:
  "summary (statsView All startDate endDate now exampleSales rs) = (3, 1950) \<and>
   map e_id (perRecipeStats (statsView All startDate endDate now exampleSales rs)) = [1, 2] \<and>
   map e_qty (perRecipeStats (statsView All startDate endDate now exampleSales rs)) = [2, 1] \<and>
   map e_sales (perRecipeStats (statsView All startDate endDate now exampleSales rs)) = [1200, 750] \<and>
   map h_data (hourlyDatasets (statsView All startDate endDate now exampleSales rs)) =
     [replicate 8 None @ [Some 2] @ replicate 15 None,
      replicate 8 None @ [Some 1] @ replicate 15 None] \<and>
   map (length \<circ> h_data) (hourlyDatasets (statsView All startDate endDate now exampleSales rs)) = [24, 24]"
  by (simp add: statsView_def filterLog_def foldl_addSale_example)

section \<open>The custom filter with an unusable range\<close>

lemma filterLog_inverted: "ed < sd \<Longrightarrow> filterLog Custom (Some sd) (Some ed) now sales = sales"
  by (simp add: filterLog_def setHoursStart_def setHoursEnd_def parseDateString_def msPerDay_def Let_def)

lemma filterLog_absent: "sd = None \<or> ed = None \<Longrightarrow> filterLog Custom sd ed now sales = sales"
  by (auto simp add: filterLog_def split: option.splits)

text \<open>
  In \<open>src/App.js\<close> a custom filter with an empty date, or with the start date after
  the end date, returns the zeroed summary and no items at once.
\<close>

lemma statsViewApp_custom_empty:
  assumes "startDate = None \<or> endDate = None \<or>
           (\<exists>sd ed. startDate = Some sd \<and> endDate = Some ed \<and> ed < sd)"
  shows "statsViewApp Custom startDate endDate now sales rs = ((0, 0), [])"
  using assms
  by (auto simp add: statsViewApp_def setHoursEnd_def parseDateString_def msPerDay_def Let_def
      split: option.splits)

text \<open>
  C3. A custom filter whose start date is after its end date, or one of whose dates is
  absent, is specified to give a zeroed summary and empty breakdowns for every sales log.
  The \<open>StatsView\<close> of the version with the hourly chart leaves \<open>log\<close> at the whole sales log in these
  cases: over the two example sales it reports \<open>totalQty = 3\<close>, \<open>totalSales = 1950\<close>,
  two per-recipe entries and two hourly series, for the range (day 2, day 1) and for an
  absent start or end date.
\<close>

theorem statsView_custom_inverted_example:
  "summary (statsView Custom (Some 2) (Some 1) now exampleSales rs) = (3, 1950) \<and>
   summary (statsView Custom None (Some 1) now exampleSales rs) = (3, 1950) \<and>
   summary (statsView Custom (Some 1) None now exampleSales rs) = (3, 1950) \<and>
   length (perRecipeStats (statsView Custom (Some 2) (Some 1) now exampleSales rs)) = 2 \<and>
   length (hourlyDatasets (statsView Custom (Some 2) (Some 1) now exampleSales rs)) = 2"
  by (simp add: statsView_def filterLog_inverted filterLog_absent foldl_addSale_example)

section \<open>Identifiers after a restore or a load\<close>







text \<open>
  The initial load of the version with the hourly chart, for stored collections that are
  empty, computes the counters from the demonstration data the state starts with: 5, 3
  and 13 next to empty collections. The restore and the initial load of \<open>src/App.js\<close>
  give 1 there.
\<close>

lemma initialLoadHourly_empty:
  "nextMaterialId (initialLoadHourly (demoState today) [] [] []) = 5 \<and>
   nextRecipeId (initialLoadHourly (demoState today) [] [] []) = 3 \<and>
   nextSaleId (initialLoadHourly (demoState today) [] [] []) = 13 \<and>
   materials (initialLoadHourly (demoState today) [] [] []) = [] \<and>
   recipes (initialLoadHourly (demoState today) [] [] []) = [] \<and>
   salesLog (initialLoadHourly (demoState today) [] [] []) = []"
  by (simp add: initialLoadHourly_def demoState_def demoMaterials_def demoSales_def demoSale_def
      butatama_def yakisoba_def mathMax0_def)

section \<open>Deleting recipes and materials\<close>

text \<open>
  C6. Deleting a recipe (\<open>handleDeleteRecipe\<close>, confirmed by the operator) succeeds in
  every state and for every identifier; afterwards no recipe and no sale carries the
  identifier, every sale of another recipe is still in the log, the log being the old one
  without the deleted recipe's sales, in the old order, and the materials are as before.
\<close>

theorem handleDeleteRecipe_cascade:
  "\<exists>st'. handleDeleteRecipe st True rid = Inr st' \<and>
     (\<forall>r\<in>set (recipes st'). r_id r \<noteq> rid) \<and>
     (\<forall>s\<in>set (salesLog st'). recipeId s \<noteq> rid) \<and>
     (\<forall>s\<in>set (salesLog st). recipeId s \<noteq> rid \<longrightarrow> s \<in> set (salesLog st')) \<and>
     salesLog st' = filter (\<lambda>s. recipeId s \<noteq> rid) (salesLog st) \<and>
     recipes st' = filter (\<lambda>r. r_id r \<noteq> rid) (recipes st) \<and>
     materials st' = materials st"
  by (simp add: handleDeleteRecipe_def)

text \<open>Deleting recipe 1 from the demonstration state leaves recipe 2 and its six sales.\<close>

theorem handleDeleteRecipe_cascade_witness:
  "recipes (after (demoState 0) (handleDeleteRecipe (demoState 0) True 1)) = [yakisoba] \<and>
   map s_id (salesLog (after (demoState 0) (handleDeleteRecipe (demoState 0) True 1))) =
     [2, 4, 6, 8, 10, 12] \<and>
   map recipeId (salesLog (after (demoState 0) (handleDeleteRecipe (demoState 0) True 1))) =
     [2, 2, 2, 2, 2, 2]"
  using handleDeleteRecipe_cascade [of "demoState 0" 1]
  by (auto simp add: after_def demoState_def demoSales_def demoSale_def butatama_def yakisoba_def)

lemma isMaterialInUse_iff:
  "isMaterialInUse rs mid \<longleftrightarrow> (\<exists>r\<in>set rs. \<exists>i\<in>set (items r). materialId i = mid)"
  by (simp add: isMaterialInUse_def list_ex_iff)

text \<open>
  C7. In every state, \<open>handleDeleteMaterial\<close> fails with \<open>MaterialInUse\<close> exactly when
  some recipe has an item that references the material (whatever the operator would
  answer to the confirmation, which is then not asked). When no recipe references it, the
  confirmed deletion succeeds, removes the material and leaves recipes and sales as they
  were.
\<close>

theorem handleDeleteMaterial_guard:
  "(handleDeleteMaterial st confirmed mid = Inl MaterialInUse
      \<longleftrightarrow> (\<exists>r\<in>set (recipes st). \<exists>i\<in>set (items r). materialId i = mid)) \<and>
   (\<not> (\<exists>r\<in>set (recipes st). \<exists>i\<in>set (items r). materialId i = mid) \<longrightarrow>
      (\<exists>st'. handleDeleteMaterial st True mid = Inr st' \<and>
         materials st' = filter (\<lambda>m. m_id m \<noteq> mid) (materials st) \<and>
         (\<forall>m\<in>set (materials st'). m_id m \<noteq> mid) \<and>
         recipes st' = recipes st \<and> salesLog st' = salesLog st))"
  by (simp add: handleDeleteMaterial_def isMaterialInUse_iff)

text \<open>Material 1 of the demonstration state is in use; with only the first recipe in the
  store, material 4 is not, and deleting it leaves the materials 1, 2, 3.\<close>

theorem handleDeleteMaterial_guard_witness:
  "handleDeleteMaterial (demoState 0) True 1 = Inl MaterialInUse \<and>
   map m_id (materials (after (demoState 0\<lparr>recipes := [butatama]\<rparr>)
       (handleDeleteMaterial (demoState 0\<lparr>recipes := [butatama]\<rparr>) True 4))) = [1, 2, 3] \<and>
   recipes (after (demoState 0\<lparr>recipes := [butatama]\<rparr>)
       (handleDeleteMaterial (demoState 0\<lparr>recipes := [butatama]\<rparr>) True 4)) = [butatama]"
  using handleDeleteMaterial_guard [of "demoState 0" True 1]
    handleDeleteMaterial_guard [of "demoState 0\<lparr>recipes := [butatama]\<rparr>" True 4]
  by (auto simp add: after_def demoState_def demoMaterials_def butatama_def yakisoba_def)

section \<open>The quantity of a sale\<close>

text \<open>
  C8, as amended. \<open>handleSellRecipe\<close> fails with \<open>InvalidQuantity\<close> and leaves the
  state unchanged for every quantity that is \<open>NaN\<close> or not positive. The guard is
  \<open>isNaN(qty) || qty <= 0\<close>; it does not test that the quantity is an integer.
\<close>

theorem handleSellRecipe_invalid_quantity:
  assumes "qty = NaN \<or> (\<exists>q. qty = Num q \<and> q \<le> 0)"
  shows "handleSellRecipe st now recipe qty = Inl InvalidQuantity \<and>
         after st (handleSellRecipe st now recipe qty) = st"
  using assms by (auto simp add: handleSellRecipe_def after_def)

theorem handleSellRecipe_invalid_quantity_witness:
  "handleSellRecipe (demoState 0) 0 butatama NaN = Inl InvalidQuantity \<and>
   handleSellRecipe (demoState 0) 0 butatama (Num 0) = Inl InvalidQuantity \<and>
   handleSellRecipe (demoState 0) 0 butatama (Num (- 1 / 2)) = Inl InvalidQuantity \<and>
   after (demoState 0) (handleSellRecipe (demoState 0) 0 butatama (Num (- 1 / 2))) = demoState 0"
  using handleSellRecipe_invalid_quantity [of NaN "demoState 0" 0 butatama]
    handleSellRecipe_invalid_quantity [of "Num 0" "demoState 0" 0 butatama]
    handleSellRecipe_invalid_quantity [of "Num (- 1 / 2)" "demoState 0" 0 butatama]
  by (simp add: after_def)

lemma three_halves_not_int: "(3 / 2 :: rat) \<notin> \<int>"
proof
  assume "(3 / 2 :: rat) \<in> \<int>"
  then obtain k :: int where "(3 / 2 :: rat) = of_int k" by (auto elim: Ints_cases)
  then have "(3 :: rat) = of_int (2 * k)" by simp
  then have "(3 :: int) = 2 * k" by (metis of_int_eq_iff of_int_numeral)
  then show False by presburger
qed

text \<open>
  C8 as stated fails: the quantity 3/2 is not an integer, yet the sale of 3/2 units of
  the first recipe of the demonstration state is not rejected; it consumes stock, raises
  the recipe's sold count to 9/2 and appends a thirteenth sale.
\<close>

theorem handleSellRecipe_fraction_accepted:
  "(3 / 2 :: rat) \<notin> \<int> \<and>
   handleSellRecipe (demoState 0) 0 butatama (Num (3 / 2)) \<noteq> Inl InvalidQuantity \<and>
   map stock (materials (after (demoState 0)
       (handleSellRecipe (demoState 0) 0 butatama (Num (3 / 2))))) = [97 / 2, 117 / 4, 77 / 2, 100] \<and>
   map soldCount (recipes (after (demoState 0)
       (handleSellRecipe (demoState 0) 0 butatama (Num (3 / 2))))) = [9 / 2, 5] \<and>
   length (salesLog (after (demoState 0)
       (handleSellRecipe (demoState 0) 0 butatama (Num (3 / 2))))) = 13"
  by (simp add: three_halves_not_int handleSellRecipe_def after_def demoState_def demoMaterials_def
      demoSales_def butatama_def yakisoba_def consume_def)

section \<open>Adding a recipe\<close>

lemma keepRow_iff:
  "keepRow row \<longleftrightarrow>
     (\<exists>mid q. f_materialId row = Some mid \<and> mid \<noteq> 0 \<and> f_qty row = Num q \<and> 0 < q)"
  by (auto simp add: keepRow_def split: option.splits number.splits)

text \<open>
  C9, as amended. With a non-empty name, \<open>RecipeForm.handleSubmit\<close> keeps exactly the
  rows whose material field holds a number other than 0 (a row with no material chosen
  is \<open>NaN\<close>) and whose amount is a positive number, and drops the others without
  failing. If no row is kept it fails with \<open>EmptyRecipe\<close> and the state is unchanged;
  otherwise it appends one recipe with the next recipe identifier, sold count 0 and
  exactly the kept rows as items, in order, and advances the counter. Whether a
  material with the chosen identifier exists is not tested.
\<close>

theorem handleSubmit_filters_rows:
  assumes "name \<noteq> []"
  shows "(\<forall>row. keepRow row \<longleftrightarrow>
            (\<exists>mid q. f_materialId row = Some mid \<and> mid \<noteq> 0 \<and> f_qty row = Num q \<and> 0 < q)) \<and>
         (filter keepRow rows = [] \<longrightarrow>
            handleSubmit st name price0 rows = Inl EmptyRecipe \<and>
            after st (handleSubmit st name price0 rows) = st) \<and>
         (filter keepRow rows \<noteq> [] \<longrightarrow>
            (\<exists>st' r. handleSubmit st name price0 rows = Inr st' \<and>
               recipes st' = recipes st @ [r] \<and>
               r_id r = nextRecipeId st \<and> r_name r = name \<and> soldCount r = 0 \<and>
               map (\<lambda>i. (Some (materialId i), Num (i_qty i))) (items r) =
                 map (\<lambda>row. (f_materialId row, f_qty row)) (filter keepRow rows) \<and>
               nextRecipeId st' = nextRecipeId st + 1 \<and>
               materials st' = materials st \<and> salesLog st' = salesLog st))"
proof -
  have "map (\<lambda>i. (Some (materialId i), Num (i_qty i))) (map toItem (filter keepRow rows)) =
        map (\<lambda>row. (f_materialId row, f_qty row)) (filter keepRow rows)"
    by (auto simp add: keepRow_iff toItem_def)
  then have "filter keepRow rows \<noteq> [] \<longrightarrow>
            (\<exists>st' r. handleSubmit st name price0 rows = Inr st' \<and>
               recipes st' = recipes st @ [r] \<and>
               r_id r = nextRecipeId st \<and> r_name r = name \<and> soldCount r = 0 \<and>
               map (\<lambda>i. (Some (materialId i), Num (i_qty i))) (items r) =
                 map (\<lambda>row. (f_materialId row, f_qty row)) (filter keepRow rows) \<and>
               nextRecipeId st' = nextRecipeId st + 1 \<and>
               materials st' = materials st \<and> salesLog st' = salesLog st)"
    using assms by (simp add: handleSubmit_def Let_def)
  moreover have "filter keepRow rows = [] \<longrightarrow>
            handleSubmit st name price0 rows = Inl EmptyRecipe \<and>
            after st (handleSubmit st name price0 rows) = st"
    using assms by (simp add: handleSubmit_def after_def Let_def)
  ultimately show ?thesis
    using keepRow_iff by blast
qed

text \<open>Of four rows, the one without a material and the one without an amount are dropped;
  two rows that are both dropped give \<open>EmptyRecipe\<close>.\<close>

theorem handleSubmit_filters_rows_witness:
  "handleSubmit (demoState 0) ''x'' NaN
     [\<lparr>f_materialId = None, f_qty = Num 1\<rparr>, \<lparr>f_materialId = Some 2, f_qty = Num 0\<rparr>] = Inl EmptyRecipe \<and>
   map items (recipes (after (demoState 0) (handleSubmit (demoState 0) ''x'' (Num 100)
       [\<lparr>f_materialId = None, f_qty = Num 1\<rparr>, \<lparr>f_materialId = Some 2, f_qty = Num (1 / 2)\<rparr>,
        \<lparr>f_materialId = Some 3, f_qty = NaN\<rparr>, \<lparr>f_materialId = Some 4, f_qty = Num 2\<rparr>]))) =
     [items butatama, items yakisoba, [\<lparr>materialId = 2, i_qty = 1 / 2\<rparr>, \<lparr>materialId = 4, i_qty = 2\<rparr>]]"
  using handleSubmit_filters_rows [of "''x''"
      "[\<lparr>f_materialId = None, f_qty = Num 1\<rparr>, \<lparr>f_materialId = Some 2, f_qty = Num 0\<rparr>]" "demoState 0" NaN]
    handleSubmit_filters_rows [of "''x''"
      "[\<lparr>f_materialId = None, f_qty = Num 1\<rparr>, \<lparr>f_materialId = Some 2, f_qty = Num (1 / 2)\<rparr>,
        \<lparr>f_materialId = Some 3, f_qty = NaN\<rparr>, \<lparr>f_materialId = Some 4, f_qty = Num 2\<rparr>]"
      "demoState 0" "Num 100"]
  by (auto simp add: after_def keepRow_def demoState_def toItem_def handleSubmit_def)

text \<open>
  C9 as stated fails: with no material in the store, a row that names material 99 is
  not dropped; the recipe is added with that item.
\<close>

theorem handleSubmit_unresolvable_kept:
  "materials initialState = [] \<and>
   handleSubmit initialState ''x'' (Num 100) [\<lparr>f_materialId = Some 99, f_qty = Num 1\<rparr>] =
     Inr (initialState\<lparr>recipes := [\<lparr>r_id = 1, r_name = ''x'', price = 100,
                                    items = [\<lparr>materialId = 99, i_qty = 1\<rparr>], soldCount = 0\<rparr>],
                        nextRecipeId := 2\<rparr>)"
  by (simp add: handleSubmit_def initialState_def keepRow_def toItem_def)

section \<open>Selling a recipe\<close>

lemma checkItems_None_iff:
  "checkItems ms q its = None \<longleftrightarrow>
     (\<forall>i\<in>set its. \<exists>m. find (\<lambda>m. m_id m = materialId i) ms = Some m \<and> i_qty i * q \<le> stock m)"
  by (induction its) (auto split: option.splits)

lemma checkItems_Some_kind:
  "checkItems ms q its = Some e \<Longrightarrow> \<exists>n r c. e = InsufficientStock n r c"
  by (induction its) (auto split: option.splits if_splits)

text \<open>
  C1. For every state, recipe and quantity: if some item of the recipe, wherever it
  stands in the list, resolves to no material, or to a material whose stock is less
  than the item's amount times the quantity, then \<open>handleSellRecipe\<close> fails (with
  \<open>InsufficientStock\<close>, or with \<open>InvalidQuantity\<close> when the quantity itself is
  refused) and the state after the handler is the state before it: no stock, consumed
  or sold count has changed and no sale was appended.
\<close>

theorem handleSellRecipe_all_or_nothing:
  assumes "i \<in> set (items recipe)"
    and "find (\<lambda>m. m_id m = materialId i) (materials st) = None \<or>
         (\<exists>m q. find (\<lambda>m. m_id m = materialId i) (materials st) = Some m \<and>
                qty = Num q \<and> stock m < i_qty i * q)"
  shows "(handleSellRecipe st now recipe qty = Inl InvalidQuantity \<or>
          (\<exists>n r c. handleSellRecipe st now recipe qty = Inl (InsufficientStock n r c))) \<and>
         after st (handleSellRecipe st now recipe qty) = st"
proof (cases qty)
  case NaN
  then show ?thesis by (simp add: handleSellRecipe_def after_def)
next
  case (Num q)
  show ?thesis
  proof (cases "q \<le> 0")
    case True
    with Num show ?thesis by (simp add: handleSellRecipe_def after_def)
  next
    case False
    have "\<not> (\<exists>m. find (\<lambda>m. m_id m = materialId i) (materials st) = Some m \<and>
                  i_qty i * q \<le> stock m)"
      using assms(2) Num by auto
    then have "checkItems (materials st) q (items recipe) \<noteq> None"
      using assms(1) unfolding checkItems_None_iff by blast
    then obtain e where e: "checkItems (materials st) q (items recipe) = Some e"
      by auto
    then obtain n r c where "e = InsufficientStock n r c"
      using checkItems_Some_kind by blast
    with e Num False show ?thesis
      by (simp add: handleSellRecipe_def after_def)
  qed
qed

text \<open>The first item of \<open>greedy\<close> passes and the second fails: material 1 keeps its
  stock of 50.\<close>

theorem handleSellRecipe_all_or_nothing_witness:
  "handleSellRecipe (demoState 0) 0 greedy (Num 1) = Inl (InsufficientStock ''butaniku'' 1000 30) \<and>
   after (demoState 0) (handleSellRecipe (demoState 0) 0 greedy (Num 1)) = demoState 0 \<and>
   map stock (materials (after (demoState 0) (handleSellRecipe (demoState 0) 0 greedy (Num 1)))) =
     [50, 30, 40, 100]"
  using handleSellRecipe_all_or_nothing [of "\<lparr>materialId = 2, i_qty = 1000\<rparr>" greedy "demoState 0" "Num 1" 0]
  by (simp add: greedy_def demoState_def demoMaterials_def handleSellRecipe_def after_def)

lemma find_first:
  assumes "xs = pre @ x # post" and "\<forall>y\<in>set pre. \<not> P y" and "P x"
  shows "find P xs = Some x"
  using assms by (induction pre arbitrary: xs) auto

text \<open>
  C10. A sale succeeds exactly when the quantity is positive and every entry of the
  recipe, taken alone, finds its material with at least the entry's amount times the
  quantity in stock: entries that name the same material are each compared with the
  full current stock. In the commit, a material is changed by the first entry of the
  recipe that names it and by no later one: whatever follows that entry in the list,
  the material's stock goes down, and its consumed goes up, by that entry's amount
  times the quantity.
\<close>

theorem handleSellRecipe_first_entry_only:
  "((\<exists>st'. handleSellRecipe st now recipe (Num q) = Inr st') \<longleftrightarrow>
      0 < q \<and> (\<forall>j\<in>set (items recipe).
                 \<exists>m. find (\<lambda>m. m_id m = materialId j) (materials st) = Some m \<and> i_qty j * q \<le> stock m)) \<and>
   (\<forall>st' pre i post k.
      handleSellRecipe st now recipe (Num q) = Inr st' \<and>
      items recipe = pre @ i # post \<and> (\<forall>j\<in>set pre. materialId j \<noteq> materialId i) \<and>
      k < length (materials st) \<and> m_id (materials st ! k) = materialId i \<longrightarrow>
      length (materials st') = length (materials st) \<and>
      materials st' ! k =
        (materials st ! k)\<lparr>stock := stock (materials st ! k) - i_qty i * q,
                           consumed := consumed (materials st ! k) + i_qty i * q\<rparr>)"
proof -
  have A: "(\<exists>st'. handleSellRecipe st now recipe (Num q) = Inr st') \<longleftrightarrow>
      0 < q \<and> (\<forall>j\<in>set (items recipe).
                 \<exists>m. find (\<lambda>m. m_id m = materialId j) (materials st) = Some m \<and> i_qty j * q \<le> stock m)"
    using checkItems_None_iff [of "materials st" q "items recipe"]
    by (auto simp add: handleSellRecipe_def split: option.splits)
  have B: "length (materials st') = length (materials st) \<and>
      materials st' ! k =
        (materials st ! k)\<lparr>stock := stock (materials st ! k) - i_qty i * q,
                           consumed := consumed (materials st ! k) + i_qty i * q\<rparr>"
    if h: "handleSellRecipe st now recipe (Num q) = Inr st'"
      "items recipe = pre @ i # post" "\<forall>j\<in>set pre. materialId j \<noteq> materialId i"
      "k < length (materials st)" "m_id (materials st ! k) = materialId i"
    for st' pre i post k
  proof -
    have ms: "materials st' = map (consume (items recipe) q) (materials st)"
      using h(1) by (auto simp add: handleSellRecipe_def split: option.splits if_splits)
    have "find (\<lambda>j. materialId j = m_id (materials st ! k)) (items recipe) = Some i"
      using h(2,3,5) by (intro find_first [of _ pre i post]) auto
    then show ?thesis
      using ms h(4) by (simp add: consume_def)
  qed
  from A B show ?thesis by blast
qed

text \<open>The recipe \<open>twice\<close> names material 1 with the amounts 3 and 4; with 5 in stock
  the sale of one unit passes both checks and takes 3.\<close>

theorem handleSellRecipe_first_entry_only_witness:
  "handleSellRecipe twiceState 0 twice (Num 1) =
     Inr (twiceState\<lparr>materials := [(mat 1 2)\<lparr>consumed := 3\<rparr>, mat 2 9],
                     recipes := [twice\<lparr>soldCount := 1\<rparr>],
                     salesLog := [\<lparr>s_id = 1, recipeId = 1, s_qty = 1, pricePerUnit = 100, timestamp = 0\<rparr>],
                     nextSaleId := 2\<rparr>)"
  using handleSellRecipe_first_entry_only [of twiceState 0 twice 1]
  by (simp add: twiceState_def twice_def mat_def handleSellRecipe_def consume_def)

section \<open>Invariants along a run\<close>

lemma distinct_map_eq:
  "distinct (map f xs) \<Longrightarrow> x \<in> set xs \<Longrightarrow> y \<in> set xs \<Longrightarrow> f x = f y \<Longrightarrow> x = y"
  by (auto simp add: distinct_map dest: inj_onD)

lemma find_distinct:
  assumes "distinct (map f xs)" and "x \<in> set xs"
  shows "find (\<lambda>y. f y = f x) xs = Some x"
proof (cases "find (\<lambda>y. f y = f x) xs")
  case None
  then show ?thesis using assms(2) by (auto simp add: find_None_iff)
next
  case (Some y)
  then have "y \<in> set xs" and "f y = f x"
    by (auto simp add: find_Some_iff)
  then have "y = x" using assms distinct_map_eq by metis
  with Some show ?thesis by simp
qed

lemma find_in_set: "find P xs = Some x \<Longrightarrow> x \<in> set xs \<and> P x"
  by (auto simp add: find_Some_iff)

lemma m_id_consume [simp]: "m_id (consume its q m) = m_id m"
  by (simp add: consume_def split: option.splits)

lemma consume_stock:
  assumes "checkItems ms q its = None" and "distinct (map m_id ms)" and "m \<in> set ms"
    and "0 \<le> stock m"
  shows "0 \<le> stock (consume its q m)"
proof (cases "find (\<lambda>i. materialId i = m_id m) its")
  case None
  then show ?thesis using assms(4) by (simp add: consume_def)
next
  case (Some item)
  then have item: "item \<in> set its" "materialId item = m_id m"
    using find_in_set by fastforce+
  then obtain m' where m': "find (\<lambda>m. m_id m = materialId item) ms = Some m'"
      "i_qty item * q \<le> stock m'"
    using assms(1) unfolding checkItems_None_iff by blast
  have "find (\<lambda>y. m_id y = m_id m) ms = Some m"
    using assms(2,3) by (rule find_distinct)
  with m' item have "m' = m" by simp
  with m' Some show ?thesis by (simp add: consume_def)
qed

lemma consume_consumed:
  assumes "\<forall>i\<in>set its. 0 < i_qty i" and "0 < q"
  shows "consumed m \<le> consumed (consume its q m)"
proof (cases "find (\<lambda>i. materialId i = m_id m) its")
  case None
  then show ?thesis by (simp add: consume_def)
next
  case (Some item)
  then have "item \<in> set its" using find_in_set by fastforce
  then have "0 < i_qty item * q" using assms by simp
  with Some show ?thesis by (simp add: consume_def)
qed


lemma wf_handleAddMaterial:
  assumes "wf st" and "handleAddMaterial st name stock0 deadline0 = Inr st'"
  shows "wf st' \<and> grows st st'"
proof -
  obtain s where s: "stock0 = Num s" "0 \<le> s" "name \<noteq> []"
    and st': "st' = st\<lparr>materials := materials st @
                        [\<lparr>m_id = nextMaterialId st, m_name = name, stock = s,
                          deadline = deadlineOr5 deadline0, consumed = 0\<rparr>],
                      nextMaterialId := nextMaterialId st + 1\<rparr>"
    using assms(2) by (auto simp add: handleAddMaterial_def split: number.splits if_splits)
  have "wf st'"
    using assms(1) s unfolding st' wf_def by fastforce
  moreover have "grows st st'"
    unfolding st' grows_def by auto
  ultimately show ?thesis by simp
qed

lemma wf_handleStockIn:
  assumes "wf st" and "handleStockIn st mid qty = Inr st'"
  shows "wf st' \<and> grows st st'"
proof -
  obtain q where q: "qty = Num q" "0 < q"
    and st': "st' = st\<lparr>materials :=
                 map (\<lambda>m. if m_id m = mid then m\<lparr>stock := stock m + q\<rparr> else m) (materials st)\<rparr>"
    using assms(2) by (auto simp add: handleStockIn_def split: number.splits if_splits)
  have ids: "m_id \<circ> (\<lambda>m. if m_id m = mid then m\<lparr>stock := stock m + q\<rparr> else m) = m_id"
    by (rule ext) simp
  have "wf st'"
    using assms(1) q unfolding st' wf_def by (auto simp add: ids)
  moreover have "grows st st'"
    unfolding st' grows_def by auto
  ultimately show ?thesis by simp
qed

lemma wf_handleDeleteMaterial:
  assumes "wf st" and "handleDeleteMaterial st confirmed mid = Inr st'"
  shows "wf st' \<and> grows st st'"
proof -
  have st': "st' = st\<lparr>materials := filter (\<lambda>m. m_id m \<noteq> mid) (materials st)\<rparr>"
    using assms(2) by (auto simp add: handleDeleteMaterial_def split: if_splits)
  have "wf st'"
    using assms(1) unfolding st' wf_def by (auto simp add: distinct_map_filter)
  moreover have "grows st st'"
    unfolding st' grows_def by auto
  ultimately show ?thesis by simp
qed

lemma wf_handleDeleteRecipe:
  assumes "wf st" and "handleDeleteRecipe st confirmed rid = Inr st'"
  shows "wf st' \<and> grows st st'"
proof -
  have st': "st' = st\<lparr>recipes := filter (\<lambda>r. r_id r \<noteq> rid) (recipes st),
                  salesLog := filter (\<lambda>s. recipeId s \<noteq> rid) (salesLog st)\<rparr>"
    using assms(2) by (auto simp add: handleDeleteRecipe_def split: if_splits)
  have "wf st'"
    using assms(1) unfolding st' wf_def by (auto simp add: distinct_map_filter)
  moreover have "grows st st'"
    unfolding st' grows_def by auto
  ultimately show ?thesis by simp
qed

lemma toItem_positive: "keepRow row \<Longrightarrow> 0 < i_qty (toItem row)"
  by (auto simp add: keepRow_def toItem_def split: option.splits number.splits)

lemma wf_handleSubmit:
  assumes "wf st" and "handleSubmit st name price0 rows = Inr st'"
  shows "wf st' \<and> grows st st'"
proof -
  have st': "st' = st\<lparr>recipes := recipes st @
                      [\<lparr>r_id = nextRecipeId st, r_name = name,
                        price = (case price0 of NaN \<Rightarrow> 0 | Num p \<Rightarrow> p),
                        items = map toItem (filter keepRow rows), soldCount = 0\<rparr>],
                    nextRecipeId := nextRecipeId st + 1\<rparr>"
    using assms(2) by (auto simp add: handleSubmit_def Let_def split: if_splits)
  have "wf st'"
    using assms(1) unfolding st' wf_def by (fastforce simp add: toItem_positive)
  moreover have "grows st st'"
    unfolding st' grows_def by auto
  ultimately show ?thesis by simp
qed


lemma wf_handleSellRecipe:
  assumes "wf st" and "recipe \<in> set (recipes st)"
    and "handleSellRecipe st now recipe qty = Inr st'"
  shows "wf st' \<and> grows st st'"
proof -
  obtain q where q: "qty = Num q" "0 < q"
    and chk: "checkItems (materials st) q (items recipe) = None"
    and st': "st' = st\<lparr>materials := map (consume (items recipe) q) (materials st),
                       recipes := map (\<lambda>r. if r_id r = r_id recipe
                                            then r\<lparr>soldCount := soldCount r + q\<rparr> else r)
                                    (recipes st),
                       salesLog := salesLog st @
                         [\<lparr>s_id = nextSaleId st, recipeId = r_id recipe, s_qty = q,
                           pricePerUnit = price recipe, timestamp = now\<rparr>],
                       nextSaleId := nextSaleId st + 1\<rparr>"
    using assms(3)
    by (auto simp add: handleSellRecipe_def split: number.splits if_splits option.splits)
  have mids: "m_id \<circ> consume (items recipe) q = m_id"
    by (rule ext) simp
  have rids: "r_id \<circ> (\<lambda>r. if r_id r = r_id recipe then r\<lparr>soldCount := soldCount r + q\<rparr> else r) = r_id"
    by (rule ext) simp
  have pos: "\<forall>i\<in>set (items recipe). 0 < i_qty i"
    using assms(1,2) unfolding wf_def by blast
  have stock: "0 \<le> stock (consume (items recipe) q m)" if "m \<in> set (materials st)" for m
    using chk that assms(1) consume_stock [of "materials st" q "items recipe" m]
    unfolding wf_def by blast
  have "wf st'"
    using assms(1) stock unfolding st' wf_def by (auto simp add: mids rids)
  moreover have "grows st st'"
  proof -
    have "\<exists>m\<in>set (materials st). m_id m = m_id m' \<and> consumed m \<le> consumed m'"
      if "m' \<in> set (materials st')" for m'
    proof -
      from that obtain m where m: "m \<in> set (materials st)" "m' = consume (items recipe) q m"
        unfolding st' by auto
      then show ?thesis
        using consume_consumed [OF pos q(2), of m] by auto
    qed
    moreover have "\<exists>r\<in>set (recipes st). r_id r = r_id r' \<and> soldCount r \<le> soldCount r'"
      if "r' \<in> set (recipes st')" for r'
    proof -
      from that obtain r where r: "r \<in> set (recipes st)"
        "r' = (if r_id r = r_id recipe then r\<lparr>soldCount := soldCount r + q\<rparr> else r)"
        unfolding st' by auto
      then show ?thesis
        using q(2) by (intro bexI [of _ r]) auto
    qed
    moreover have "nextMaterialId st' = nextMaterialId st" "nextRecipeId st' = nextRecipeId st"
      unfolding st' by simp_all
    ultimately show ?thesis
      unfolding grows_def by auto
  qed
  ultimately show ?thesis by simp
qed

lemma grows_refl: "grows st st"
  unfolding grows_def by auto

lemma grows_trans:
  assumes "grows a b" and "grows b c"
  shows "grows a c"
  unfolding grows_def
proof (intro conjI ballI)
  show "nextMaterialId a \<le> nextMaterialId c" "nextRecipeId a \<le> nextRecipeId c"
    using assms unfolding grows_def by auto
next
  fix m'' assume "m'' \<in> set (materials c)"
  then consider "nextMaterialId b \<le> m_id m''"
    | m' where "m' \<in> set (materials b)" "m_id m' = m_id m''" "consumed m' \<le> consumed m''"
    using assms(2) unfolding grows_def by blast
  then show "nextMaterialId a \<le> m_id m'' \<or>
     (\<exists>m\<in>set (materials a). m_id m = m_id m'' \<and> consumed m \<le> consumed m'')"
  proof cases
    case 1
    then show ?thesis using assms(1) unfolding grows_def by auto
  next
    case 2
    from 2(1) consider "nextMaterialId a \<le> m_id m'"
      | m where "m \<in> set (materials a)" "m_id m = m_id m'" "consumed m \<le> consumed m'"
      using assms(1) unfolding grows_def by blast
    then show ?thesis
    proof cases
      case 1
      then show ?thesis using 2 by simp
    next
      case 2
      then show ?thesis using \<open>m_id m' = m_id m''\<close> \<open>consumed m' \<le> consumed m''\<close>
        by (intro disjI2 bexI [of _ m]) auto
    qed
  qed
next
  fix r'' assume "r'' \<in> set (recipes c)"
  then consider "nextRecipeId b \<le> r_id r''"
    | r' where "r' \<in> set (recipes b)" "r_id r' = r_id r''" "soldCount r' \<le> soldCount r''"
    using assms(2) unfolding grows_def by blast
  then show "nextRecipeId a \<le> r_id r'' \<or>
     (\<exists>r\<in>set (recipes a). r_id r = r_id r'' \<and> soldCount r \<le> soldCount r'')"
  proof cases
    case 1
    then show ?thesis using assms(1) unfolding grows_def by auto
  next
    case 2
    from 2(1) consider "nextRecipeId a \<le> r_id r'"
      | r where "r \<in> set (recipes a)" "r_id r = r_id r'" "soldCount r \<le> soldCount r'"
      using assms(1) unfolding grows_def by blast
    then show ?thesis
    proof cases
      case 1
      then show ?thesis using 2 by simp
    next
      case 2
      then show ?thesis using \<open>r_id r' = r_id r''\<close> \<open>soldCount r' \<le> soldCount r''\<close>
        by (intro disjI2 bexI [of _ r]) auto
    qed
  qed
qed

lemma wf_exec:
  assumes "wf st"
  shows "wf (exec st op) \<and> grows st (exec st op)"
proof (cases op)
  case (AddMaterial name stock0 deadline0)
  then show ?thesis
    using assms wf_handleAddMaterial [of st name stock0 deadline0]
    by (cases "handleAddMaterial st name stock0 deadline0") (simp_all add: after_def grows_refl)
next
  case (StockIn mid qty)
  then show ?thesis
    using assms wf_handleStockIn [of st mid qty]
    by (cases "handleStockIn st mid qty") (simp_all add: after_def grows_refl)
next
  case (DeleteMaterial confirmed mid)
  then show ?thesis
    using assms wf_handleDeleteMaterial [of st confirmed mid]
    by (cases "handleDeleteMaterial st confirmed mid") (simp_all add: after_def grows_refl)
next
  case (AddRecipe name price0 rows)
  then show ?thesis
    using assms wf_handleSubmit [of st name price0 rows]
    by (cases "handleSubmit st name price0 rows") (simp_all add: after_def grows_refl)
next
  case (DeleteRecipe confirmed rid)
  then show ?thesis
    using assms wf_handleDeleteRecipe [of st confirmed rid]
    by (cases "handleDeleteRecipe st confirmed rid") (simp_all add: after_def grows_refl)
next
  case (RecordSale now recipe qty)
  then show ?thesis
    using assms wf_handleSellRecipe [of st recipe now qty]
    by (cases "handleSellRecipe st now recipe qty") (simp_all add: after_def grows_refl)
qed

lemma wf_foldl_exec:
  assumes "wf st"
  shows "wf (foldl exec st ops) \<and> grows st (foldl exec st ops)"
  using assms
proof (induction ops arbitrary: st)
  case Nil
  then show ?case by (simp add: grows_refl)
next
  case (Cons op ops)
  have step: "wf (exec st op)" "grows st (exec st op)"
    using wf_exec [OF Cons.prems] by simp_all
  from Cons.IH [OF step(1)] step(2) show ?case
    using grows_trans by auto
qed

text \<open>Both versions of the application start in a state that satisfies the invariants.\<close>

lemma wf_initialState: "wf initialState"
  by (simp add: wf_def initialState_def)

lemma wf_demoState: "wf (demoState today)"
  by (simp add: wf_def demoState_def demoMaterials_def butatama_def yakisoba_def)

text \<open>
  C2. From a state that satisfies the invariants of the data model (both initial states
  do), after every sequence of operations \<open>ops\<close> (sales, stock-ins, additions and
  deletions of materials and recipes, committed or refused) every material's stock is
  not negative; and along any continuation \<open>ops'\<close> of the run, a material that is
  still in the store has at least the consumed it had, and a recipe that is still in the
  store has at least the sold count it had.
\<close>

theorem stock_nonneg_counters_monotone:
  assumes "wf st"
  shows "(\<forall>m\<in>set (materials (foldl exec st ops)). 0 \<le> stock m) \<and>
         (\<forall>m\<in>set (materials (foldl exec st ops)).
            \<forall>m'\<in>set (materials (foldl exec (foldl exec st ops) ops')).
              m_id m' = m_id m \<longrightarrow> consumed m \<le> consumed m') \<and>
         (\<forall>r\<in>set (recipes (foldl exec st ops)).
            \<forall>r'\<in>set (recipes (foldl exec (foldl exec st ops) ops')).
              r_id r' = r_id r \<longrightarrow> soldCount r \<le> soldCount r')"
proof -
  let ?a = "foldl exec st ops"
  let ?b = "foldl exec ?a ops'"
  have a: "wf ?a" using wf_foldl_exec [OF assms] by simp
  have g: "grows ?a ?b" using wf_foldl_exec [OF a] by simp
  have 1: "\<forall>m\<in>set (materials ?a). 0 \<le> stock m"
    using a unfolding wf_def by blast
  have 2: "consumed m \<le> consumed m'"
    if h: "m \<in> set (materials ?a)" "m' \<in> set (materials ?b)" "m_id m' = m_id m" for m m'
  proof -
    have "m_id m < nextMaterialId ?a" using a h(1) unfolding wf_def by blast
    then obtain m0 where m0: "m0 \<in> set (materials ?a)" "m_id m0 = m_id m'" "consumed m0 \<le> consumed m'"
      using g h(2,3) unfolding grows_def by fastforce
    have "distinct (map m_id (materials ?a))" using a unfolding wf_def by blast
    then have "m0 = m" using m0(1,2) h(1,3) distinct_map_eq by metis
    with m0 show ?thesis by simp
  qed
  have 3: "soldCount r \<le> soldCount r'"
    if h: "r \<in> set (recipes ?a)" "r' \<in> set (recipes ?b)" "r_id r' = r_id r" for r r'
  proof -
    have "r_id r < nextRecipeId ?a" using a h(1) unfolding wf_def by blast
    then obtain r0 where r0: "r0 \<in> set (recipes ?a)" "r_id r0 = r_id r'" "soldCount r0 \<le> soldCount r'"
      using g h(2,3) unfolding grows_def by fastforce
    have "distinct (map r_id (recipes ?a))" using a unfolding wf_def by blast
    then have "r0 = r" using r0(1,2) h(1,3) distinct_map_eq by metis
    with r0 show ?thesis by simp
  qed
  from 1 2 3 show ?thesis by blast
qed

lemma demo_run:
  "foldl exec (demoState 0) [RecordSale 5 butatama (Num 2), StockIn 2 (Num 10)] =
     \<lparr>materials = [\<lparr>m_id = 1, m_name = ''tamanegi'', stock = 48, deadline = 10, consumed = 12\<rparr>,
      \<lparr>m_id = 2, m_name = ''butaniku'', stock = 39, deadline = 5, consumed = 6\<rparr>,
      \<lparr>m_id = 3, m_name = ''kyabetsu'', stock = 38, deadline = 8, consumed = 10\<rparr>,
      \<lparr>m_id = 4, m_name = ''men'', stock = 100, deadline = 20, consumed = 20\<rparr>],
      recipes = [butatama\<lparr>soldCount := 5\<rparr>, yakisoba],
      salesLog = demoSales 0 @ [\<lparr>s_id = 13, recipeId = 1, s_qty = 2, pricePerUnit = 600, timestamp = 5\<rparr>],
      nextMaterialId = 5, nextRecipeId = 3, nextSaleId = 14\<rparr>"
  by (simp add: demoState_def demoMaterials_def butatama_def yakisoba_def after_def
      handleSellRecipe_def handleStockIn_def consume_def)

text \<open>A run from the demonstration state: two units of the first recipe, a stock-in,
  a refused deletion of a material in use, one unit of the second recipe.\<close>

theorem stock_nonneg_counters_monotone_witness:
  "wf (demoState 0) \<and>
   map stock (materials (foldl exec (demoState 0) [RecordSale 5 butatama (Num 2), StockIn 2 (Num 10)])) =
     [48, 39, 38, 100] \<and>
   map consumed (materials (foldl exec (demoState 0) [RecordSale 5 butatama (Num 2), StockIn 2 (Num 10)])) =
     [12, 6, 10, 20] \<and>
   map consumed (materials (foldl exec
       (foldl exec (demoState 0) [RecordSale 5 butatama (Num 2), StockIn 2 (Num 10)])
       [DeleteMaterial True 4, RecordSale 6 yakisoba (Num 1)])) = [25 / 2, 67 / 10, 54 / 5, 21] \<and>
   map stock (materials (foldl exec
       (foldl exec (demoState 0) [RecordSale 5 butatama (Num 2), StockIn 2 (Num 10)])
       [DeleteMaterial True 4, RecordSale 6 yakisoba (Num 1)])) = [95 / 2, 383 / 10, 186 / 5, 99] \<and>
   map soldCount (recipes (foldl exec
       (foldl exec (demoState 0) [RecordSale 5 butatama (Num 2), StockIn 2 (Num 10)])
       [DeleteMaterial True 4, RecordSale 6 yakisoba (Num 1)])) = [5, 6]"
  using stock_nonneg_counters_monotone [OF wf_demoState, of 0
      "[RecordSale 5 butatama (Num 2), StockIn 2 (Num 10)]"
      "[DeleteMaterial True 4, RecordSale 6 yakisoba (Num 1)]"]
  unfolding demo_run
  by (simp add: wf_demoState butatama_def yakisoba_def after_def
      handleSellRecipe_def handleDeleteMaterial_def isMaterialInUse_def consume_def)

end
